theory Spec2Isabelle
  imports Main "HOL-Library.Sublist"
begin

section \<open>Values, errors and the host's data\<close>

text \<open>
  JavaScript strings are modelled as \<^typ>\<open>string\<close>, one \<^typ>\<open>char\<close> per code unit
  (code units up to 255). A raise of the source is the \<open>Inl\<close> of a result.
\<close>

datatype error = TypeError | SyntaxError

datatype jsval = JUndefined | JNull | JBool bool | JString string

text \<open>\<^verbatim>\<open>String(v)\<close>, the coercion \<^verbatim>\<open>RegExp.prototype.test\<close> applies to its argument.\<close>

fun toString :: "jsval \<Rightarrow> string" where
  "toString JUndefined = ''undefined''"
| "toString JNull = ''null''"
| "toString (JBool b) = (if b then ''true'' else ''false'')"
| "toString (JString s) = s"

text \<open>Node's \<^verbatim>\<open>validateString\<close>, the first statement of every \<^verbatim>\<open>path\<close> function.\<close>

fun validateString :: "jsval \<Rightarrow> error + string" where
  "validateString (JString s) = Inr s"
| "validateString v = Inl TypeError"

definition backslash :: char where
  "backslash = CHR 0x5C"

text \<open>
  A webpack \<^verbatim>\<open>Source\<close>: what \<^verbatim>\<open>source()\<close> yields, as text (after the
  \<^verbatim>\<open>toString()\<close> of line 52 when it is a buffer).
\<close>

record source_obj =
  source :: string

text \<open>
  The value of \<^verbatim>\<open>assets[name]\<close>. \<^verbatim>\<open>compilation.assets\<close> is a plain object: a name it
  does not own is looked up in \<^verbatim>\<open>Object.prototype\<close>, whose members are truthy and have
  no \<^verbatim>\<open>source\<close> method.
\<close>

datatype asset_prop = Own source_obj | Inherited

definition objectPrototypeKeys :: "string list" where
  "objectPrototypeKeys =
     [''constructor'', ''__defineGetter__'', ''__defineSetter__'', ''hasOwnProperty'',
      ''__lookupGetter__'', ''__lookupSetter__'', ''isPrototypeOf'',
      ''propertyIsEnumerable'', ''toString'', ''valueOf'', ''__proto__'',
      ''toLocaleString'']"

text \<open>The artifact set: the own enumerable properties, in the order \<^verbatim>\<open>for ... in\<close> visits them.\<close>

type_synonym assets = "(string \<times> source_obj) list"

definition getProp :: "assets \<Rightarrow> string \<Rightarrow> asset_prop option" where
  "getProp as name =
     (case map_of as name of
        Some a \<Rightarrow> Some (Own a)
      | None \<Rightarrow> if name \<in> set objectPrototypeKeys then Some Inherited else None)"

record output_options =
  path :: string
  publicPath :: string

record compilation =
  outputOptions :: output_options
  assets :: assets

record tag =
  tagName :: string
  voidTag :: "bool option"
  closeTag :: "bool option"
  attributes :: "(string \<times> jsval) list"
  innerHTML :: "string option"
  meta :: "(string \<times> jsval) list"

text \<open>\<^verbatim>\<open>tag.attributes.src\<close>: a missing attribute reads as \<^verbatim>\<open>undefined\<close>.\<close>

definition attr :: "tag \<Rightarrow> string \<Rightarrow> jsval" where
  "attr t k = (case map_of (attributes t) k of None \<Rightarrow> JUndefined | Some v \<Rightarrow> v)"

text \<open>\<^verbatim>\<open>pluginData.assetTags\<close>; \<open>metaTags\<close> is its property \<^verbatim>\<open>meta\<close>.\<close>

record asset_tags =
  metaTags :: "tag list"
  scripts :: "tag list"
  styles :: "tag list"

text \<open>
  \<^verbatim>\<open>pluginData\<close>: the three tag groups and \<^verbatim>\<open>plugin.options.filename\<close>; the record's
  extension slot stands for every other property, which \<^verbatim>\<open>{ ...pluginData }\<close> copies.
\<close>

record plugin_data =
  assetTags :: asset_tags
  filename :: string

section \<open>Node's \<^verbatim>\<open>path.posix\<close>, and \<^verbatim>\<open>slash\<close>\<close>

text \<open>
  The library functions the plugin calls are not part of the repository; they are modelled
  after Node's \<^verbatim>\<open>lib/path.js\<close> (POSIX flavour; \<^verbatim>\<open>path.basename\<close> is the platform's, taken
  to be POSIX) and the package \<^verbatim>\<open>slash\<close> (version 3, the last one \<^verbatim>\<open>require\<close> can load).
\<close>

fun splitOn :: "char \<Rightarrow> string \<Rightarrow> string list" where
  "splitOn c [] = [[]]"
| "splitOn c (x # xs) =
     (if x = c then [] # splitOn c xs
      else (let r = splitOn c xs in (x # hd r) # tl r))"

fun joinWith :: "string \<Rightarrow> string list \<Rightarrow> string" where
  "joinWith sep [] = []"
| "joinWith sep [x] = x"
| "joinWith sep (x # y # ys) = x @ sep @ joinWith sep (y # ys)"

text \<open>
  \<^verbatim>\<open>normalizeString(path, allowAboveRoot, '/', isPosixPathSeparator)\<close>, segment by segment:
  an empty segment and \<^verbatim>\<open>.\<close> are dropped; \<^verbatim>\<open>..\<close> removes the last kept segment unless
  there is none or it is \<^verbatim>\<open>..\<close> itself, in which case it is kept only if
  \<^verbatim>\<open>allowAboveRoot\<close>; any other segment is kept.
\<close>

definition normalizeStep :: "bool \<Rightarrow> string list \<Rightarrow> string \<Rightarrow> string list" where
  "normalizeStep allowAboveRoot res seg =
     (if seg = [] \<or> seg = ''.'' then res
      else if seg = ''..'' then
        (if res \<noteq> [] \<and> last res \<noteq> ''..'' then butlast res
         else if allowAboveRoot then res @ [''..'']
         else res)
      else res @ [seg])"

definition normalizeString :: "string \<Rightarrow> bool \<Rightarrow> string" where
  "normalizeString p allowAboveRoot =
     joinWith ''/'' (foldl (normalizeStep allowAboveRoot) [] (splitOn CHR ''/'' p))"

definition posix_normalize :: "string \<Rightarrow> string" where
  "posix_normalize p =
     (if p = [] then ''.''
      else
        (let isAbsolute = (hd p = CHR ''/'');
             trailingSeparator = (last p = CHR ''/'');
             n = normalizeString p (\<not> isAbsolute)
         in if n = [] then (if isAbsolute then ''/'' else if trailingSeparator then ''./'' else ''.'')
            else (let n' = (if trailingSeparator then n @ ''/'' else n)
                  in if isAbsolute then CHR ''/'' # n' else n')))"

definition posix_join :: "string list \<Rightarrow> string" where
  "posix_join args =
     (let parts = filter (\<lambda>a. a \<noteq> []) args
      in if parts = [] then ''.'' else posix_normalize (joinWith ''/'' parts))"

text \<open>
  \<^verbatim>\<open>path.posix.resolve\<close>: the arguments from the right, then \<^verbatim>\<open>process.cwd()\<close>, until
  an absolute one is met. The working directory is a parameter of the model.
\<close>

fun resolveLoop :: "string list \<Rightarrow> string \<Rightarrow> string \<times> bool" where
  "resolveLoop [] resolvedPath = (resolvedPath, False)"
| "resolveLoop (p # ps) resolvedPath =
     (if p = [] then resolveLoop ps resolvedPath
      else if hd p = CHR ''/'' then (p @ ''/'' @ resolvedPath, True)
      else resolveLoop ps (p @ ''/'' @ resolvedPath))"

definition posix_resolve :: "string \<Rightarrow> string list \<Rightarrow> string" where
  "posix_resolve cwd args =
     (case resolveLoop (rev args @ [cwd]) [] of
        (resolvedPath, resolvedAbsolute) \<Rightarrow>
          (let n = normalizeString resolvedPath (\<not> resolvedAbsolute)
           in if resolvedAbsolute then CHR ''/'' # n
              else if n \<noteq> [] then n else ''.''))"

text \<open>
  \<^verbatim>\<open>path.posix.relative\<close>. \<open>commonLoop\<close> is its first loop, over the two resolved paths
  without their first character: it returns the index where they part (or where the
  shorter ends) and the last common separator, \<open>-1\<close> when there is none.
\<close>

fun commonLoop :: "string \<Rightarrow> string \<Rightarrow> nat \<Rightarrow> int \<Rightarrow> nat \<times> int" where
  "commonLoop (a # as) (b # bs) i lastCommonSep =
     (if a \<noteq> b then (i, lastCommonSep)
      else commonLoop as bs (Suc i) (if a = CHR ''/'' then int i else lastCommonSep))"
| "commonLoop as bs i lastCommonSep = (i, lastCommonSep)"

definition relativeOut :: "string \<Rightarrow> string \<Rightarrow> int \<Rightarrow> string" where
  "relativeOut from to lastCommonSep =
     (let start = nat (1 + lastCommonSep + 1);
          k = (if start \<le> length from then 1 else 0)
              + length (filter (\<lambda>c. c = CHR ''/'') (drop start from))
      in joinWith ''/'' (replicate k ''..'') @ drop (nat (1 + lastCommonSep)) to)"

definition posix_relative :: "string \<Rightarrow> string \<Rightarrow> string \<Rightarrow> string" where
  "posix_relative cwd from0 to0 =
     (if from0 = to0 then []
      else
        (let from = posix_resolve cwd [from0];
             to = posix_resolve cwd [to0]
         in if from = to then []
            else
              (let fromLen = length from - 1;
                   toLen = length to - 1;
                   len = min fromLen toLen
               in case commonLoop (drop 1 from) (drop 1 to) 0 (- 1) of
                    (i, lastCommonSep) \<Rightarrow>
                      if i = len \<and> toLen > len \<and> to ! (1 + i) = CHR ''/''
                        then drop (1 + i + 1) to
                      else if i = len \<and> toLen > len \<and> i = 0
                        then drop (1 + i) to
                      else if i = len \<and> \<not> toLen > len \<and> fromLen > len
                              \<and> from ! (1 + i) = CHR ''/''
                        then relativeOut from to (int i)
                      else if i = len \<and> \<not> toLen > len \<and> fromLen > len \<and> i = 0
                        then relativeOut from to 0
                      else relativeOut from to lastCommonSep)))"

text \<open>
  \<^verbatim>\<open>path.posix.dirname\<close>: the loop runs \<open>i\<close> from the last index down to 1 and stops at
  the first separator that follows a non-separator.
\<close>

primrec dirnameLoop :: "string \<Rightarrow> nat \<Rightarrow> bool \<Rightarrow> nat option" where
  "dirnameLoop p 0 matchedSlash = None"
| "dirnameLoop p (Suc k) matchedSlash =
     (if p ! Suc k = CHR ''/''
      then (if \<not> matchedSlash then Some (Suc k) else dirnameLoop p k matchedSlash)
      else dirnameLoop p k False)"

definition posix_dirname :: "string \<Rightarrow> string" where
  "posix_dirname p =
     (if p = [] then ''.''
      else
        (let hasRoot = (hd p = CHR ''/'')
         in case dirnameLoop p (length p - 1) True of
              None \<Rightarrow> (if hasRoot then ''/'' else ''.'')
            | Some e \<Rightarrow> if hasRoot \<and> e = 1 then ''//'' else take e p))"

text \<open>
  \<^verbatim>\<open>path.basename\<close> with one argument: \<open>n\<close> is \<open>i + 1\<close>; the result is the pair of
  \<^verbatim>\<open>start\<close> and \<^verbatim>\<open>end\<close> (\<open>None\<close> for \<open>-1\<close>).
\<close>

primrec basenameLoop :: "string \<Rightarrow> nat \<Rightarrow> bool \<Rightarrow> nat option \<Rightarrow> nat \<times> nat option" where
  "basenameLoop p 0 matchedSlash e = (0, e)"
| "basenameLoop p (Suc i) matchedSlash e =
     (if p ! i = CHR ''/''
      then (if \<not> matchedSlash then (Suc i, e) else basenameLoop p i matchedSlash e)
      else if e = None then basenameLoop p i False (Some (Suc i))
      else basenameLoop p i matchedSlash e)"

definition basename :: "string \<Rightarrow> string" where
  "basename p =
     (case basenameLoop p (length p) True None of
        (start, None) \<Rightarrow> []
      | (start, Some e) \<Rightarrow> drop start (take e p))"

text \<open>
  \<^verbatim>\<open>slash\<close>: an extended-length path and a path with a code unit above \<open>0x80\<close> are
  returned as they are; otherwise every backslash becomes a forward slash.
\<close>

definition slash :: "string \<Rightarrow> string" where
  "slash p =
     (if prefix [backslash, backslash, CHR ''?'', backslash] p
         \<or> list_ex (\<lambda>c. (of_char c :: nat) > 0x80) p
      then p
      else map (\<lambda>c. if c = backslash then CHR ''/'' else c) p)"

section \<open>The package \<^verbatim>\<open>source-map-url\<close>\<close>

text \<open>
  \<^verbatim>\<open>getFrom(code)\<close> is \<^verbatim>\<open>code.match(regex)\<close> and then group 1, group 2 or the empty
  string, where \<^verbatim>\<open>regex\<close> is, with \<^verbatim>\<open>I = [#@] sourceMappingURL=([^\s'"]*)\<close>,
  \<^verbatim>\<open>(?:/\*(?:\s*\r?\n(?://)?)?(?:I)\s*\*/|//(?:I))\s*\<close>.
  The matcher below follows the regular expression piece by piece.
\<close>

definition isWs :: "char \<Rightarrow> bool" where
  \<comment> \<open>the class \<^verbatim>\<open>\s\<close>, among the code units up to 255\<close>
  "isWs c = (c \<in> set [CHR 0x09, CHR 0x0A, CHR 0x0B, CHR 0x0C, CHR 0x0D, CHR 0x20, CHR 0xA0])"

definition urlChar :: "char \<Rightarrow> bool" where
  \<comment> \<open>the class \<^verbatim>\<open>[^\s'"]\<close>\<close>
  "urlChar c = (\<not> isWs c \<and> c \<noteq> CHR 0x27 \<and> c \<noteq> CHR 0x22)"

text \<open>\<^verbatim>\<open>[#@] sourceMappingURL=\<close> at the head of the text: what follows it.\<close>

definition matchInner :: "string \<Rightarrow> string option" where
  "matchInner s =
     (case s of
        [] \<Rightarrow> None
      | c # r \<Rightarrow>
          if (c = CHR ''#'' \<or> c = CHR ''@'') \<and> prefix '' sourceMappingURL='' r
          then Some (drop 18 r) else None)"

text \<open>
  After \<^verbatim>\<open>/*\<close>: the optional \<^verbatim>\<open>\s*\r?\n(?://)?\<close> and then the marker. The marker
  starts with a character that is neither white space nor a slash, so the optional part,
  when it is used, is the whole run of white space (which must end in a line feed) and
  the two slashes if they are there.
\<close>

definition blockStart :: "string \<Rightarrow> string option" where
  "blockStart s =
     (case matchInner s of
        Some r \<Rightarrow> Some r
      | None \<Rightarrow>
          (let w = takeWhile isWs s; r0 = dropWhile isWs s
           in if w \<noteq> [] \<and> last w = CHR 0x0A
              then (if prefix ''//'' r0 then matchInner (drop 2 r0) else matchInner r0)
              else None))"

text \<open>
  The first alternative: the greedy group \<^verbatim>\<open>([^\s'"]*)\<close> gives characters back, from
  its longest candidate down, until \<^verbatim>\<open>\s*\*/\<close> matches behind it.
\<close>

definition blockComment :: "string \<Rightarrow> string option" where
  "blockComment s =
     (case blockStart s of
        None \<Rightarrow> None
      | Some r \<Rightarrow>
          (let m = length (takeWhile urlChar r)
           in case find (\<lambda>k. prefix ''*/'' (dropWhile isWs (drop k r))) (rev [0..<Suc m]) of
                None \<Rightarrow> None
              | Some k \<Rightarrow> Some (take k r)))"

text \<open>The second alternative: \<^verbatim>\<open>//\<close>, the marker, and the greedy group.\<close>

definition lineComment :: "string \<Rightarrow> string option" where
  "lineComment s =
     (case matchInner s of None \<Rightarrow> None | Some r \<Rightarrow> Some (takeWhile urlChar r))"

definition matchHere :: "string \<Rightarrow> string option" where
  "matchHere s =
     (if prefix ''/*'' s then blockComment (drop 2 s)
      else if prefix ''//'' s then lineComment (drop 2 s)
      else None)"

text \<open>The leftmost match; \<open>None\<close> is \<^verbatim>\<open>null\<close>.\<close>

fun getFrom :: "string \<Rightarrow> string option" where
  "getFrom [] = None"
| "getFrom (c # cs) =
     (case matchHere (c # cs) of Some u \<Rightarrow> Some u | None \<Rightarrow> getFrom cs)"

section \<open>The plugin\<close>

subsection \<open>\<^verbatim>\<open>getAssetByName\<close>\<close>

record asset_info =
  asset :: "asset_prop option"
  assetName :: string

text \<open>
  The \<^verbatim>\<open>for ... in\<close> loop. It runs only when \<^verbatim>\<open>asset\<close> is falsy, and what it returns
  is that \<^verbatim>\<open>asset\<close> (line 118), so the \<^verbatim>\<open>asset\<close> of its result is \<^verbatim>\<open>undefined\<close>.
\<close>

fun scanKeys :: "string \<Rightarrow> string \<Rightarrow> string \<Rightarrow> string list \<Rightarrow> asset_info option" where
  "scanKeys cwd pp name [] = None"
| "scanKeys cwd pp name (key # keys) =
     (if posix_relative cwd pp key = name
      then Some \<lparr>asset = None, assetName = key\<rparr>
      else scanKeys cwd pp name keys)"

definition getAssetByName :: "string \<Rightarrow> assets \<Rightarrow> string \<Rightarrow> string \<Rightarrow> asset_info option" where
  "getAssetByName cwd as name pp =
     (case getProp as name of
        Some a \<Rightarrow> Some \<lparr>asset = Some a, assetName = name\<rparr>
      | None \<Rightarrow> scanKeys cwd pp name (map fst as))"

subsection \<open>\<^verbatim>\<open>resolveSourceMaps\<close>\<close>

text \<open>\<^verbatim>\<open>out.publicPath === 'auto' ? '' : slash(out.publicPath) || ''\<close> (lines 69 and 96).\<close>

definition publicPathOf :: "output_options \<Rightarrow> string" where
  "publicPathOf out = (if publicPath out = ''auto'' then [] else slash (publicPath out))"

text \<open>Lines 61 to 70.\<close>

definition mapUrlCorrected :: "string \<Rightarrow> output_options \<Rightarrow> string \<Rightarrow> string \<Rightarrow> string" where
  "mapUrlCorrected cwd out name mapUrlOriginal =
     (let rootPath = slash (path out);
          assetPath = posix_join [rootPath, name];
          assetDir = posix_dirname assetPath;
          mapPath = posix_join [assetDir, mapUrlOriginal];
          mapPathRelative = posix_relative cwd rootPath mapPath;
          pp = publicPathOf out
      in if pp \<noteq> [] then posix_join [pp, mapPathRelative] else mapPathRelative)"

text \<open>
  The text \<^verbatim>\<open>(\s*(?:\*/)?\s*$)\<close> accepts: white space, or white space around one
  \<^verbatim>\<open>*/\<close>, up to the end of the content.
\<close>

definition closer :: "string \<Rightarrow> bool" where
  "closer r =
     (let r1 = dropWhile isWs r
      in r1 = [] \<or> (prefix ''*/'' r1 \<and> list_all isWs (drop 2 r1)))"

text \<open>
  Lines 74 to 77: \<^verbatim>\<open>source.replace(regex, ...)\<close> with the escaped URL followed by the
  group above; the regular expression is not global, so the leftmost match is replaced,
  by the corrected URL and the group.
\<close>

fun replaceMapUrl :: "string \<Rightarrow> string \<Rightarrow> string \<Rightarrow> string" where
  "replaceMapUrl url new [] =
     (if url = [] then new else [])"
| "replaceMapUrl url new (c # cs) =
     (if prefix url (c # cs) \<and> closer (drop (length url) (c # cs))
      then new @ drop (length url) (c # cs)
      else c # replaceMapUrl url new cs)"

definition resolveSourceMaps :: "string \<Rightarrow> compilation \<Rightarrow> asset_info \<Rightarrow> error + string" where
  "resolveSourceMaps cwd c assetInfo =
     (case asset assetInfo of
        None \<Rightarrow> Inl TypeError
      | Some Inherited \<Rightarrow> Inl TypeError
      | Some (Own a) \<Rightarrow>
          (let src = source a
           in case getFrom src of
                None \<Rightarrow> Inr src
              | Some mapUrlOriginal \<Rightarrow>
                  if mapUrlOriginal = [] \<or> prefix ''data:'' mapUrlOriginal
                     \<or> prefix ''/'' mapUrlOriginal
                  then Inr src
                  else Inr (replaceMapUrl mapUrlOriginal
                              (mapUrlCorrected cwd (outputOptions c) (assetName assetInfo)
                                 mapUrlOriginal)
                              src)))"

subsection \<open>\<^verbatim>\<open>processTag\<close>\<close>


text \<open>
  \<^verbatim>\<open>updatedSource.replace(/(<)(\/script>)/g, '\\x3C$2')\<close> (\<^verbatim>\<open>processTag\<close>, the
  \<^verbatim>\<open>innerHTML\<close> of a script): the global replace scans from the left; at a match of
  \<^verbatim>\<open></script>\<close> it emits the four characters backslash, x, 3, C and then group 2, and
  goes on after the match; any other character is copied.
\<close>

fun escapeScript :: "string \<Rightarrow> string" where
  "escapeScript [] = []"
| "escapeScript (c # cs) =
     (if prefix ''</script>'' (c # cs)
      then (backslash # ''x3C'') @ ''/script>'' @ escapeScript (drop 8 cs)
      else c # escapeScript cs)"

text \<open>
  The same transformation as the specification words it: every \<^verbatim>\<open><\<close> that stands
  immediately before \<^verbatim>\<open>/script>\<close> becomes the hexadecimal escape, every other
  character stays.
\<close>

fun escape_lt_before_script :: "string \<Rightarrow> string" where
  "escape_lt_before_script [] = []"
| "escape_lt_before_script (c # cs) =
     (if c = CHR ''<'' \<and> prefix ''/script>'' cs
      then (backslash # ''x3C'') @ escape_lt_before_script cs
      else c # escape_lt_before_script cs)"



text \<open>Lines 102 to 108, the replacement descriptor.\<close>

definition inlinedTag :: "tag \<Rightarrow> string \<Rightarrow> tag" where
  "inlinedTag t updatedSource =
     \<lparr>tagName = (if tagName t = ''script'' then ''script'' else ''style''),
      voidTag = None,
      closeTag = Some True,
      attributes =
        [(''type'', JString (if tagName t = ''script'' then ''text/javascript'' else ''text/css''))],
      innerHTML =
        Some (if tagName t = ''script'' then escapeScript updatedSource else updatedSource),
      meta = [(''plugin'', JString ''html-webpack-inline-source-plugin'')]\<rparr>"

text \<open>
  Lines 92 and 93: \<^verbatim>\<open>path.posix.join\<close> validates its arguments, so an asset URL that is
  not a string raises there.
\<close>

definition assetUrlInFolder :: "string \<Rightarrow> jsval \<Rightarrow> error + jsval" where
  "assetUrlInFolder fname assetUrl =
     (let bn = basename fname
      in if bn \<noteq> fname
         then (case validateString assetUrl of
                 Inl e \<Rightarrow> Inl e
               | Inr u \<Rightarrow> Inr (JString (posix_join [slash bn, u])))
         else Inr assetUrl)"

text \<open>
  Lines 92 to 97 for an asset URL that is a string: the name \<^verbatim>\<open>getAssetByName\<close> is
  called with.
\<close>

definition candidateAssetName :: "string \<Rightarrow> output_options \<Rightarrow> string \<Rightarrow> string \<Rightarrow> string" where
  "candidateAssetName cwd out fname url =
     posix_relative cwd (publicPathOf out)
       (if basename fname \<noteq> fname then posix_join [slash (basename fname), url] else url)"

text \<open>Lines 91 to 108, once a tag is selected and \<^verbatim>\<open>assetUrl\<close> is set.\<close>

definition inlineAsset :: "string \<Rightarrow> compilation \<Rightarrow> tag \<Rightarrow> string \<Rightarrow> jsval \<Rightarrow> error + tag" where
  "inlineAsset cwd c t fname assetUrl0 =
     (case assetUrlInFolder fname assetUrl0 of
        Inl e \<Rightarrow> Inl e
      | Inr assetUrl \<Rightarrow>
          (let pp = publicPathOf (outputOptions c)
           in case validateString assetUrl of
                Inl e \<Rightarrow> Inl e
              | Inr u \<Rightarrow>
                  (let name = posix_relative cwd pp u
                   in case getAssetByName cwd (assets c) name pp of
                        None \<Rightarrow> Inr t
                      | Some assetInfo \<Rightarrow>
                          (case resolveSourceMaps cwd c assetInfo of
                             Inl e \<Rightarrow> Inl e
                           | Inr updatedSource \<Rightarrow> Inr (inlinedTag t updatedSource)))))"

text \<open>
  \<^verbatim>\<open>regex\<close> is the compiled pattern as the predicate \<^verbatim>\<open>test\<close> computes (it has no
  flags, so \<^verbatim>\<open>test\<close> keeps no state); \<^verbatim>\<open>test\<close> coerces its argument to a string.
\<close>

definition processTag :: "string \<Rightarrow> compilation \<Rightarrow> (string \<Rightarrow> bool) \<Rightarrow> tag \<Rightarrow> string \<Rightarrow> error + tag" where
  "processTag cwd c regex t fname =
     (if tagName t = ''script'' \<and> regex (toString (attr t ''src''))
        then inlineAsset cwd c t fname (attr t ''src'')
      else if tagName t = ''link'' \<and> regex (toString (attr t ''href''))
        then inlineAsset cwd c t fname (attr t ''href'')
      else Inr t)"

subsection \<open>\<^verbatim>\<open>processTags\<close>\<close>

text \<open>\<^verbatim>\<open>Array.prototype.map\<close> with a callback that may raise: the first raise ends it.\<close>

fun mapE :: "('a \<Rightarrow> error + 'b) \<Rightarrow> 'a list \<Rightarrow> error + 'b list" where
  "mapE f [] = Inr []"
| "mapE f (x # xs) =
     (case f x of
        Inl e \<Rightarrow> Inl e
      | Inr y \<Rightarrow> (case mapE f xs of Inl e \<Rightarrow> Inl e | Inr ys \<Rightarrow> Inr (y # ys)))"

text \<open>
  \<open>newRegExp\<close> is \<^verbatim>\<open>new RegExp(regexStr)\<close>: a syntax error, or the compiled pattern.
\<close>

definition processTags ::
  "string \<Rightarrow> compilation \<Rightarrow> (string \<Rightarrow> error + (string \<Rightarrow> bool)) \<Rightarrow> string
     \<Rightarrow> 'a plugin_data_scheme \<Rightarrow> error + 'a plugin_data_scheme" where
  "processTags cwd c newRegExp regexStr pluginData =
     (case newRegExp regexStr of
        Inl e \<Rightarrow> Inl e
      | Inr regex \<Rightarrow>
          (let fname = filename pluginData;
               f = (\<lambda>t. processTag cwd c regex t fname)
           in case mapE f (metaTags (assetTags pluginData)) of
                Inl e \<Rightarrow> Inl e
              | Inr m \<Rightarrow>
                  (case mapE f (scripts (assetTags pluginData)) of
                     Inl e \<Rightarrow> Inl e
                   | Inr sc \<Rightarrow>
                       (case mapE f (styles (assetTags pluginData)) of
                          Inl e \<Rightarrow> Inl e
                        | Inr st \<Rightarrow>
                            Inr (pluginData\<lparr>assetTags :=
                                   \<lparr>metaTags = m, scripts = sc, styles = st\<rparr>\<rparr>)))))"

section \<open>A small build\<close>

text \<open>
  One compilation with a script and a stylesheet, each with a source-map reference, and
  the tags the host would inject for them; the properties below are exercised on it.
\<close>

definition ex_js :: string where
  "ex_js = ''var a;'' @ [CHR 0x0A] @ ''//# sourceMappingURL=foo.js.map''"

definition ex_css :: string where
  "ex_css = ''a{}'' @ [CHR 0x0A] @ ''/*# sourceMappingURL=main.css.map */''"

definition ex_data_js :: string where
  "ex_data_js = ''var a;'' @ [CHR 0x0A] @ ''//# sourceMappingURL=data:application/json;base64,e30=''"

definition ex_abs_js :: string where
  "ex_abs_js = ''var a;'' @ [CHR 0x0A] @ ''//# sourceMappingURL=/abs/path.map''"

definition ex_compilation :: compilation where
  "ex_compilation =
     \<lparr>outputOptions = \<lparr>path = ''/dist'', publicPath = ''/static/''\<rparr>,
      assets = [(''bundle.js'', \<lparr>source = ex_js\<rparr>), (''main.css'', \<lparr>source = ex_css\<rparr>)]\<rparr>"

text \<open>A script tag as the host builds it for an asset URL.\<close>

definition scriptTag :: "string \<Rightarrow> tag" where
  "scriptTag src =
     \<lparr>tagName = ''script'', voidTag = Some False, closeTag = None,
      attributes = [(''defer'', JBool True), (''src'', JString src)],
      innerHTML = None, meta = [(''plugin'', JString ''html-webpack-plugin'')]\<rparr>"

definition ex_script :: tag where
  "ex_script = scriptTag ''/static/bundle.js''"

text \<open>A stylesheet link as the host builds it for an asset URL.\<close>

definition linkTag :: "string \<Rightarrow> tag" where
  "linkTag href =
     \<lparr>tagName = ''link'', voidTag = Some True, closeTag = None,
      attributes = [(''href'', JString href), (''rel'', JString ''stylesheet'')],
      innerHTML = None, meta = [(''plugin'', JString ''html-webpack-plugin'')]\<rparr>"

definition ex_link :: tag where
  "ex_link =
     \<lparr>tagName = ''link'', voidTag = Some True, closeTag = None,
      attributes = [(''href'', JString ''/static/main.css''), (''rel'', JString ''stylesheet'')],
      innerHTML = None, meta = [(''plugin'', JString ''html-webpack-plugin'')]\<rparr>"

definition ex_meta :: tag where
  "ex_meta =
     \<lparr>tagName = ''meta'', voidTag = Some True, closeTag = None,
      attributes = [(''name'', JString ''viewport''), (''content'', JString ''width=device-width'')],
      innerHTML = None, meta = [(''plugin'', JString ''html-webpack-plugin'')]\<rparr>"

text \<open>A script tag with a body and no \<^verbatim>\<open>src\<close>.\<close>

definition ex_srcless :: tag where
  "ex_srcless =
     \<lparr>tagName = ''script'', voidTag = Some False, closeTag = None,
      attributes = [], innerHTML = Some ''window.x = 1'', meta = []\<rparr>"

definition ex_pluginData :: plugin_data where
  "ex_pluginData =
     \<lparr>assetTags = \<lparr>metaTags = [ex_meta], scripts = [ex_script], styles = [ex_link]\<rparr>,
      filename = ''index.html''\<rparr>"

text \<open>The same build with the automatic public path.\<close>

definition ex_auto :: compilation where
  "ex_auto = ex_compilation\<lparr>outputOptions := \<lparr>path = ''/dist'', publicPath = ''auto''\<rparr>\<rparr>"

text \<open>The pattern \<^verbatim>\<open>^/static/\<close>, compiled.\<close>

definition ex_regex :: "string \<Rightarrow> bool" where
  "ex_regex s = prefix ''/static/'' s"

text \<open>What \<^verbatim>\<open>processTags\<close> returns for it under that pattern.\<close>

definition ex_result :: plugin_data where
  "ex_result =
     \<lparr>assetTags =
        \<lparr>metaTags = [ex_meta],
         scripts = [inlinedTag ex_script
                      (''var a;'' @ [CHR 0x0A] @ ''//# sourceMappingURL=/static/foo.js.map'')],
         styles = [inlinedTag ex_link
                     (''a{}'' @ [CHR 0x0A] @ ''/*# sourceMappingURL=/static/main.css.map */'')]\<rparr>,
      filename = ''index.html''\<rparr>"

section \<open>Properties\<close>

subsection \<open>Script bodies\<close>

lemma escape_lt_plain:
  "CHR ''<'' \<notin> set p \<Longrightarrow> escape_lt_before_script (p @ s) = p @ escape_lt_before_script s"
  by (induction p) auto

lemma escapeScript_refines: "escapeScript s = escape_lt_before_script s"
proof (induction s rule: escapeScript.induct)
  case 1
  show ?case by simp
next
  case (2 c cs)
  show ?case
  proof (cases "prefix ''</script>'' (c # cs)")
    case True
    then obtain r where cs: "cs = ''/script>'' @ r" and c: "c = CHR ''<''"
      by (auto simp: prefix_def)
    have "escape_lt_before_script (''/script>'' @ r) = ''/script>'' @ escape_lt_before_script r"
      by (rule escape_lt_plain) simp
    with 2 True cs c show ?thesis by simp
  next
    case False
    with 2 show ?thesis by auto
  qed
qed

lemma prefix_escape_plain:
  "CHR ''<'' \<notin> set p \<Longrightarrow> backslash \<notin> set p \<Longrightarrow>
   prefix p (escape_lt_before_script s) = prefix p s"
proof (induction p arbitrary: s)
  case Nil
  show ?case by simp
next
  case (Cons a p)
  show ?case
  proof (cases s)
    case Nil
    then show ?thesis by simp
  next
    case (Cons c cs)
    with Cons.prems Cons.IH [of cs] show ?thesis by auto
  qed
qed

lemma no_close_tag_escape: "\<not> sublist ''</script>'' (escape_lt_before_script s)"
proof (induction s)
  case Nil
  show ?case by simp
next
  case (Cons c cs)
  have p: "prefix ''/script>'' (escape_lt_before_script cs) = prefix ''/script>'' cs"
    by (rule prefix_escape_plain) (simp_all add: backslash_def)
  show ?case
  proof (cases "c = CHR ''<'' \<and> prefix ''/script>'' cs")
    case True
    with Cons show ?thesis
      by (simp add: sublist_Cons_right backslash_def)
  next
    case False
    with Cons p show ?thesis
      by (auto simp: sublist_Cons_right)
  qed
qed

text \<open>
  C5. For every string of inlined script content, the body that \<^verbatim>\<open>processTag\<close>
  produces from it is the input with each \<^verbatim>\<open><\<close> immediately before \<^verbatim>\<open>/script>\<close>
  replaced by the hexadecimal escape and every other character kept, and it never
  contains \<^verbatim>\<open></script>\<close> as a contiguous substring.
\<close>

theorem escapeScript_correct:
  "escapeScript s = escape_lt_before_script s \<and> \<not> sublist ''</script>'' (escapeScript s)"
  by (simp add: escapeScript_refines no_close_tag_escape)


subsection \<open>Source-map references\<close>

lemma matchInner_marker:
  assumes "matchInner s = Some r"
  shows "sublist ''sourceMappingURL='' s"
proof -
  from assms obtain c q where "s = c # '' sourceMappingURL='' @ q"
    by (auto simp: matchInner_def prefix_def split: list.splits if_splits)
  then have "s = [c, CHR '' ''] @ ''sourceMappingURL='' @ q" by simp
  then show ?thesis unfolding sublist_def by blast
qed

lemma sublist_drop: "sublist p (drop n s) \<Longrightarrow> sublist p s"
  by (metis sublist_order.order.trans suffix_drop suffix_imp_sublist)

lemma sublist_dropWhile: "sublist p (dropWhile P s) \<Longrightarrow> sublist p s"
  by (metis sublist_order.order.trans suffix_dropWhile suffix_imp_sublist)

lemma blockStart_marker:
  "blockStart s = Some r \<Longrightarrow> sublist ''sourceMappingURL='' s"
  by (auto simp: blockStart_def Let_def split: option.splits if_splits
           dest!: matchInner_marker intro: sublist_drop sublist_dropWhile)

lemma matchHere_marker:
  "matchHere s = Some u \<Longrightarrow> sublist ''sourceMappingURL='' s"
  unfolding matchHere_def blockComment_def lineComment_def
  by (auto simp: Let_def split: option.splits if_splits
           dest!: matchInner_marker blockStart_marker intro: sublist_drop)

lemma getFrom_marker:
  "getFrom s = Some u \<Longrightarrow> sublist ''sourceMappingURL='' s"
proof (induction s)
  case Nil
  then show ?case by simp
next
  case (Cons c cs)
  show ?case
  proof (cases "matchHere (c # cs)")
    case None
    with Cons have "sublist ''sourceMappingURL='' cs" by simp
    then show ?thesis by (simp add: sublist_Cons_right)
  next
    case (Some v)
    then show ?thesis by (rule matchHere_marker)
  qed
qed

lemma resolveSourceMaps_Own:
  "asset info = Some (Own a) \<Longrightarrow> \<exists>body. resolveSourceMaps cwd c info = Inr body"
  by (simp add: resolveSourceMaps_def Let_def split: option.splits)

lemma replaceMapUrl_frame:
  "replaceMapUrl url new s = s \<or>
   (\<exists>pre rest. s = pre @ url @ rest \<and> closer rest \<and> replaceMapUrl url new s = pre @ new @ rest)"
proof (induction s)
  case Nil
  show ?case by (auto simp: closer_def)
next
  case (Cons c cs)
  show ?case
  proof (cases "prefix url (c # cs) \<and> closer (drop (length url) (c # cs))")
    case True
    then have "c # cs = [] @ url @ drop (length url) (c # cs)"
      by (auto simp: prefix_def)
    with True show ?thesis by (metis append_Nil replaceMapUrl.simps(2))
  next
    case False
    then have step: "replaceMapUrl url new (c # cs) = c # replaceMapUrl url new cs"
      by auto
    from Cons show ?thesis
    proof
      assume "replaceMapUrl url new cs = cs"
      with step show ?thesis by simp
    next
      assume "\<exists>pre rest. cs = pre @ url @ rest \<and> closer rest
                \<and> replaceMapUrl url new cs = pre @ new @ rest"
      then obtain pre rest where
        "cs = pre @ url @ rest" "closer rest" "replaceMapUrl url new cs = pre @ new @ rest"
        by blast
      with step have "c # cs = (c # pre) @ url @ rest \<and> closer rest
          \<and> replaceMapUrl url new (c # cs) = (c # pre) @ new @ rest"
        by simp
      then show ?thesis by blast
    qed
  qed
qed

lemma replaceMapUrl_same: "replaceMapUrl url url s = s"
  by (induction s) (auto simp: prefix_def)

text \<open>
  The guard of lines 55 to 58 looks at the reference \<^verbatim>\<open>getFrom\<close> yields, the leftmost
  one: when the content does not contain the marker text, or \<^verbatim>\<open>getFrom\<close> finds no
  reference or an empty one, or that reference is a data URI or begins with a slash, the
  content is returned as it is.
\<close>

lemma resolveSourceMaps_untouched:
  assumes "asset info = Some (Own a)"
    and "\<not> sublist ''sourceMappingURL='' (source a) \<or> getFrom (source a) = None
         \<or> (\<exists>u. getFrom (source a) = Some u \<and> (u = [] \<or> prefix ''data:'' u \<or> prefix ''/'' u))"
  shows "resolveSourceMaps cwd c info = Inr (source a)"
proof -
  from assms(2) have "getFrom (source a) = None
         \<or> (\<exists>u. getFrom (source a) = Some u \<and> (u = [] \<or> prefix ''data:'' u \<or> prefix ''/'' u))"
    using getFrom_marker by (cases "getFrom (source a)") auto
  with assms(1) show ?thesis
    by (auto simp: resolveSourceMaps_def Let_def)
qed

lemma resolveSourceMaps_untouched_example:
  "asset \<lparr>asset = Some (Own \<lparr>source = ex_data_js\<rparr>), assetName = ''bundle.js''\<rparr>
     = Some (Own \<lparr>source = ex_data_js\<rparr>) \<and>
   getFrom ex_data_js = Some ''data:application/json;base64,e30='' \<and>
   prefix ''data:'' ''data:application/json;base64,e30='' \<and>
   resolveSourceMaps ''/home/u'' ex_compilation
     \<lparr>asset = Some (Own \<lparr>source = ex_data_js\<rparr>), assetName = ''bundle.js''\<rparr> = Inr ex_data_js"
proof -
  let ?a = "\<lparr>source = ex_data_js\<rparr>"
  let ?info = "\<lparr>asset = Some (Own ?a), assetName = ''bundle.js''\<rparr>"
  have h1: "asset ?info = Some (Own ?a)" by simp
  have g: "getFrom ex_data_js = Some ''data:application/json;base64,e30=''"
    by code_simp
  have p: "prefix ''data:'' ''data:application/json;base64,e30=''"
    by simp
  from g p have h2: "\<not> sublist ''sourceMappingURL='' (source ?a) \<or> getFrom (source ?a) = None
         \<or> (\<exists>u. getFrom (source ?a) = Some u \<and> (u = [] \<or> prefix ''data:'' u \<or> prefix ''/'' u))"
    by simp
  from resolveSourceMaps_untouched [OF h1 h2, of "''/home/u''" ex_compilation] g p
  show ?thesis by simp
qed

text \<open>
  C7 (the code departs from it). The content below has two references, and the trailing
  one is a data URI. \<^verbatim>\<open>getFrom\<close> yields the first, \<^verbatim>\<open>e30=\<close>, which passes the
  guard of line 56; the regular expression of line 74 then matches that text at the end
  of the content, inside the data URI, and the data URI is rewritten. In the same way a
  trailing reference that begins with a slash, \<^verbatim>\<open>/abs/path.map\<close>, is rewritten when an
  earlier reference is \<^verbatim>\<open>path.map\<close>.
\<close>

theorem resolveSourceMaps_rewrites_data_uri:
  "getFrom (''//# sourceMappingURL=e30='' @ [CHR 0x0A] @ ''var a;'' @ [CHR 0x0A]
            @ ''//# sourceMappingURL=data:application/json;base64,e30='') = Some ''e30='' \<and>
   resolveSourceMaps cwd
     \<lparr>outputOptions = \<lparr>path = ''/dist'', publicPath = ''/static/''\<rparr>, assets = as\<rparr>
     \<lparr>asset = Some (Own \<lparr>source = ''//# sourceMappingURL=e30='' @ [CHR 0x0A] @ ''var a;''
                @ [CHR 0x0A] @ ''//# sourceMappingURL=data:application/json;base64,e30=''\<rparr>),
      assetName = ''bundle.js''\<rparr>
     = Inr (''//# sourceMappingURL=e30='' @ [CHR 0x0A] @ ''var a;'' @ [CHR 0x0A]
            @ ''//# sourceMappingURL=data:application/json;base64,/static/e30='') \<and>
   resolveSourceMaps cwd
     \<lparr>outputOptions = \<lparr>path = ''/dist'', publicPath = ''/static/''\<rparr>, assets = as\<rparr>
     \<lparr>asset = Some (Own \<lparr>source = ''//# sourceMappingURL=path.map'' @ [CHR 0x0A] @ ''var a;''
                @ [CHR 0x0A] @ ''//# sourceMappingURL=/abs/path.map''\<rparr>),
      assetName = ''bundle.js''\<rparr>
     = Inr (''//# sourceMappingURL=path.map'' @ [CHR 0x0A] @ ''var a;'' @ [CHR 0x0A]
            @ ''//# sourceMappingURL=/abs//static/path.map'')"
  by code_simp

text \<open>
  C8. The three concrete inputs of the specification's round-trip property, with output
  root \<^verbatim>\<open>/dist\<close>, artifact name \<^verbatim>\<open>bundle.js\<close> and public path \<^verbatim>\<open>/static/\<close>: the
  reference \<^verbatim>\<open>foo.js.map\<close> is rewritten to \<^verbatim>\<open>/static/foo.js.map\<close>; the content
  with a data URI and the content with \<^verbatim>\<open>/abs/path.map\<close> come back as they are. This
  holds in every working directory and with any artifact set.
\<close>

theorem resolveSourceMaps_examples:
  "resolveSourceMaps cwd
     \<lparr>outputOptions = \<lparr>path = ''/dist'', publicPath = ''/static/''\<rparr>, assets = as\<rparr>
     \<lparr>asset = Some (Own \<lparr>source = ''var a;'' @ [CHR 0x0A] @ ''//# sourceMappingURL=foo.js.map''\<rparr>),
      assetName = ''bundle.js''\<rparr>
     = Inr (''var a;'' @ [CHR 0x0A] @ ''//# sourceMappingURL=/static/foo.js.map'') \<and>
   resolveSourceMaps cwd
     \<lparr>outputOptions = \<lparr>path = ''/dist'', publicPath = ''/static/''\<rparr>, assets = as\<rparr>
     \<lparr>asset = Some (Own \<lparr>source = ''var a;'' @ [CHR 0x0A]
                @ ''//# sourceMappingURL=data:application/json;base64,e30=''\<rparr>),
      assetName = ''bundle.js''\<rparr>
     = Inr (''var a;'' @ [CHR 0x0A] @ ''//# sourceMappingURL=data:application/json;base64,e30='') \<and>
   resolveSourceMaps cwd
     \<lparr>outputOptions = \<lparr>path = ''/dist'', publicPath = ''/static/''\<rparr>, assets = as\<rparr>
     \<lparr>asset = Some (Own \<lparr>source = ''var a;'' @ [CHR 0x0A] @ ''//# sourceMappingURL=/abs/path.map''\<rparr>),
      assetName = ''bundle.js''\<rparr>
     = Inr (''var a;'' @ [CHR 0x0A] @ ''//# sourceMappingURL=/abs/path.map'')"
  by code_simp

text \<open>
  What the replacement of lines 74 to 77 does: for every artifact \<^verbatim>\<open>resolveSourceMaps\<close>
  returns, and its output is the content itself, or the content with one occurrence of
  the text of the reference replaced by the corrected reference, that occurrence being
  followed up to the end of the content only by white space and an optional \<^verbatim>\<open>*/\<close>,
  which are kept as they are, like everything before it; and when the corrected reference
  equals the original one the output is the content. The occurrence need not be the one
  in the source-map comment.
\<close>

lemma resolveSourceMaps_frame:
  assumes "asset info = Some (Own a)"
  shows "\<exists>out. resolveSourceMaps cwd c info = Inr out \<and>
           (out = source a \<or>
            (\<exists>pre url rest.
                getFrom (source a) = Some url \<and> source a = pre @ url @ rest \<and> closer rest \<and>
                out = pre @ mapUrlCorrected cwd (outputOptions c) (assetName info) url @ rest)) \<and>
           (\<forall>url. getFrom (source a) = Some url \<and>
                  mapUrlCorrected cwd (outputOptions c) (assetName info) url = url
                  \<longrightarrow> out = source a)"
proof -
  let ?new = "\<lambda>url. mapUrlCorrected cwd (outputOptions c) (assetName info) url"
  define out where "out = (case getFrom (source a) of
                None \<Rightarrow> source a
              | Some url \<Rightarrow>
                  if url = [] \<or> prefix ''data:'' url \<or> prefix ''/'' url then source a
                  else replaceMapUrl url (?new url) (source a))"
  have ret: "resolveSourceMaps cwd c info = Inr out"
    using assms by (simp add: resolveSourceMaps_def out_def Let_def split: option.splits)
  have frame: "out = source a \<or>
            (\<exists>pre url rest.
                getFrom (source a) = Some url \<and> source a = pre @ url @ rest \<and> closer rest \<and>
                out = pre @ ?new url @ rest)"
  proof (cases "getFrom (source a)")
    case None
    then show ?thesis by (simp add: out_def)
  next
    case (Some url)
    show ?thesis
    proof (cases "url = [] \<or> prefix ''data:'' url \<or> prefix ''/'' url")
      case True
      with Some show ?thesis by (simp add: out_def)
    next
      case False
      with Some have o: "out = replaceMapUrl url (?new url) (source a)"
        by (simp add: out_def)
      from replaceMapUrl_frame [of url "?new url" "source a"] o Some show ?thesis
        by blast
    qed
  qed
  have idem: "\<forall>url. getFrom (source a) = Some url \<and> ?new url = url \<longrightarrow> out = source a"
    by (auto simp: out_def replaceMapUrl_same)
  from ret frame idem show ?thesis by blast
qed

lemma resolveSourceMaps_frame_example:
  "asset \<lparr>asset = Some (Own \<lparr>source = ex_js\<rparr>), assetName = ''bundle.js''\<rparr>
     = Some (Own \<lparr>source = ex_js\<rparr>) \<and>
   resolveSourceMaps ''/home/u'' ex_compilation
      \<lparr>asset = Some (Own \<lparr>source = ex_js\<rparr>), assetName = ''bundle.js''\<rparr>
     = Inr (''var a;'' @ [CHR 0x0A] @ ''//# sourceMappingURL=/static/foo.js.map'') \<and>
   (\<exists>pre rest. ex_js = pre @ ''foo.js.map'' @ rest \<and> closer rest \<and>
       ''var a;'' @ [CHR 0x0A] @ ''//# sourceMappingURL=/static/foo.js.map''
         = pre @ ''/static/foo.js.map'' @ rest) \<and>
   getFrom ex_js = Some ''foo.js.map'' \<and>
   mapUrlCorrected ''/home/u'' (outputOptions ex_auto) ''bundle.js'' ''foo.js.map'' = ''foo.js.map'' \<and>
   resolveSourceMaps ''/home/u'' ex_auto
      \<lparr>asset = Some (Own \<lparr>source = ex_js\<rparr>), assetName = ''bundle.js''\<rparr> = Inr ex_js"
proof -
  let ?a = "\<lparr>source = ex_js\<rparr>"
  let ?info = "\<lparr>asset = Some (Own ?a), assetName = ''bundle.js''\<rparr>"
  let ?out = "''var a;'' @ [CHR 0x0A] @ ''//# sourceMappingURL=/static/foo.js.map''"
  have own: "asset ?info = Some (Own ?a)" by simp
  have r: "resolveSourceMaps ''/home/u'' ex_compilation ?info = Inr ?out"
    by code_simp
  have g: "getFrom ex_js = Some ''foo.js.map''"
    by code_simp
  have m: "mapUrlCorrected ''/home/u'' (outputOptions ex_compilation) ''bundle.js'' ''foo.js.map''
             = ''/static/foo.js.map''"
    by code_simp
  have ne: "?out \<noteq> ex_js"
    by code_simp
  from resolveSourceMaps_frame [OF own, of "''/home/u''" ex_compilation] r g m ne
  have 1: "\<exists>pre rest. ex_js = pre @ ''foo.js.map'' @ rest \<and> closer rest \<and>
       ?out = pre @ ''/static/foo.js.map'' @ rest"
    by auto
  have m2: "mapUrlCorrected ''/home/u'' (outputOptions ex_auto) ''bundle.js'' ''foo.js.map''
             = ''foo.js.map''"
    by code_simp
  from resolveSourceMaps_frame [OF own, of "''/home/u''" ex_auto] g m2
  have 2: "resolveSourceMaps ''/home/u'' ex_auto ?info = Inr ex_js"
    by auto
  from own r 1 g m2 2 show ?thesis by simp
qed

text \<open>
  C9 (the code departs from it). In the content below the source-map comment is followed
  by a statement that ends in the text of the reference. \<^verbatim>\<open>getFrom\<close> yields
  \<^verbatim>\<open>a.map\<close> from the comment; the regular expression of line 74 is anchored at the end
  of the content and matches the \<^verbatim>\<open>a.map\<close> of the statement. The output keeps the
  reference as it was and differs from the input in the statement.
\<close>

theorem resolveSourceMaps_rewrites_program_text:
  "getFrom (''//# sourceMappingURL=a.map'' @ [CHR 0x0A] @ ''x=a.map'') = Some ''a.map'' \<and>
   resolveSourceMaps cwd
     \<lparr>outputOptions = \<lparr>path = ''/dist'', publicPath = ''/static/''\<rparr>, assets = as\<rparr>
     \<lparr>asset = Some (Own \<lparr>source = ''//# sourceMappingURL=a.map'' @ [CHR 0x0A] @ ''x=a.map''\<rparr>),
      assetName = ''bundle.js''\<rparr>
     = Inr (''//# sourceMappingURL=a.map'' @ [CHR 0x0A] @ ''x=/static/a.map'')"
  by code_simp

subsection \<open>Tags\<close>

lemma inlineAsset_undefined: "inlineAsset cwd c t fname JUndefined = Inl TypeError"
  by (simp add: inlineAsset_def assetUrlInFolder_def Let_def)

lemma inlineAsset_string:
  "inlineAsset cwd c t fname (JString url) =
     (case getAssetByName cwd (assets c) (candidateAssetName cwd (outputOptions c) fname url)
             (publicPathOf (outputOptions c)) of
        None \<Rightarrow> Inr t
      | Some assetInfo \<Rightarrow>
          (case resolveSourceMaps cwd c assetInfo of
             Inl e \<Rightarrow> Inl e
           | Inr updatedSource \<Rightarrow> Inr (inlinedTag t updatedSource)))"
  by (simp add: inlineAsset_def assetUrlInFolder_def candidateAssetName_def Let_def)

lemma processTag_cases:
  "processTag cwd c regex t fname = Inr t' \<Longrightarrow> t' = t \<or> (\<exists>u. t' = inlinedTag t u)"
  by (auto simp: processTag_def inlineAsset_def Let_def split: if_splits sum.splits option.splits)

lemma mapE_Inr:
  "mapE f xs = Inr ys \<Longrightarrow> length ys = length xs \<and> (\<forall>i<length xs. f (xs ! i) = Inr (ys ! i))"
proof (induction xs arbitrary: ys)
  case Nil
  then show ?case by simp
next
  case (Cons x xs)
  from Cons.prems obtain y ys' where
    y: "f x = Inr y" and r: "mapE f xs = Inr ys'" and ys: "ys = y # ys'"
    by (auto split: sum.splits)
  from Cons.IH [OF r] y ys show ?case
    by (auto simp: nth_Cons split: nat.splits)
qed

lemma mapE_total:
  "(\<forall>x\<in>set xs. \<exists>y. f x = Inr y) \<Longrightarrow> \<exists>ys. mapE f xs = Inr ys"
  by (induction xs) (auto split: sum.splits)

lemma scanKeys_Some:
  "scanKeys cwd pp name keys = Some info \<Longrightarrow>
     asset info = None \<and> assetName info \<in> set keys \<and>
     posix_relative cwd pp (assetName info) = name"
  by (induction keys) (auto split: if_splits)

text \<open>
  Whatever the scan of the keys finds, it returns the key it found and no artifact.
\<close>

lemma getAssetByName_fallback:
  "getProp as name = None \<Longrightarrow> getAssetByName cwd as name pp = Some info \<Longrightarrow>
     asset info = None \<and> assetName info \<in> fst ` set as \<and>
     posix_relative cwd pp (assetName info) = name"
  using scanKeys_Some [of cwd pp name "map fst as" info]
  by (simp add: getAssetByName_def)

text \<open>
  C1 (the code departs from it). For the target \<^verbatim>\<open>sub/index.html\<close> and a tag that
  references \<^verbatim>\<open>app.js\<close>, lines 92 and 93 prefix the reference with the base name
  \<^verbatim>\<open>index.html\<close>, not with the folder \<^verbatim>\<open>sub\<close>: the candidate name is
  \<^verbatim>\<open>index.html/app.js\<close>, and the tag is left as it is although the artifact
  \<^verbatim>\<open>sub/app.js\<close> exists.
\<close>

theorem processTag_subfolder_uses_basename:
  "assetUrlInFolder ''sub/index.html'' (JString ''app.js'') = Inr (JString ''index.html/app.js'') \<and>
   candidateAssetName ''/home/u/proj'' \<lparr>path = ''/dist'', publicPath = ''auto''\<rparr>
     ''sub/index.html'' ''app.js'' = ''index.html/app.js'' \<and>
   processTag ''/home/u/proj''
     \<lparr>outputOptions = \<lparr>path = ''/dist'', publicPath = ''auto''\<rparr>,
      assets = [(''sub/app.js'', \<lparr>source = ''var a;''\<rparr>)]\<rparr>
     (\<lambda>s. True) (scriptTag ''app.js'') ''sub/index.html'' = Inr (scriptTag ''app.js'')"
  by code_simp

text \<open>
  C2 (the code departs from it). With the artifact set \<^verbatim>\<open>{"/pub/app.js": a}\<close>, the
  public path \<^verbatim>\<open>/pub/\<close> and the candidate name \<^verbatim>\<open>app.js\<close>, the name is no key, the
  key's path relative to the public path equals it, and \<^verbatim>\<open>getAssetByName\<close> returns
  the key with \<^verbatim>\<open>asset\<close> undefined, not the artifact \<open>a\<close> stored under the key.
\<close>

theorem getAssetByName_fallback_loses_asset:
  "getProp [(''/pub/app.js'', a)] ''app.js'' = None \<and>
   posix_relative cwd ''/pub/'' ''/pub/app.js'' = ''app.js'' \<and>
   getAssetByName cwd [(''/pub/app.js'', a)] ''app.js'' ''/pub/''
     = Some \<lparr>asset = None, assetName = ''/pub/app.js''\<rparr>"
  by code_simp

text \<open>
  C3 (the code departs from it). \<^verbatim>\<open>processTag\<close> raises a \<^verbatim>\<open>TypeError\<close> for a script
  tag whose artifact is found by the scan of the keys (here the key \<^verbatim>\<open>./js/app.js\<close>
  for the reference \<^verbatim>\<open>js/app.js\<close>), and for a script tag without \<^verbatim>\<open>src\<close> under a
  pattern that matches everything.
\<close>

theorem processTag_raises:
  "processTag ''/home/u/proj''
     \<lparr>outputOptions = \<lparr>path = ''/dist'', publicPath = ''auto''\<rparr>,
      assets = [(''./js/app.js'', \<lparr>source = ''var a;''\<rparr>)]\<rparr>
     (\<lambda>s. True) (scriptTag ''js/app.js'') ''index.html'' = Inl TypeError \<and>
   processTag ''/home/u/proj'' ex_compilation (\<lambda>s. True) ex_srcless ''index.html''
     = Inl TypeError"
  by code_simp

text \<open>
  C4 (the code departs from it). The pattern matches the \<^verbatim>\<open>href\<close> of the link tag, and
  the artifact is found: the candidate name \<^verbatim>\<open>css/a.css\<close> is no key, and the scan of
  the keys finds \<^verbatim>\<open>./css/a.css\<close>. The result of the scan carries no artifact, and
  \<^verbatim>\<open>processTag\<close> raises a \<^verbatim>\<open>TypeError\<close> instead of returning the \<^verbatim>\<open>style\<close>
  descriptor.
\<close>

theorem processTag_link_fallback_raises:
  "getAssetByName ''/home/u/proj'' [(''./css/a.css'', \<lparr>source = ''a{}''\<rparr>)]
     (candidateAssetName ''/home/u/proj'' \<lparr>path = ''/dist'', publicPath = ''auto''\<rparr>
        ''index.html'' ''css/a.css'')
     (publicPathOf \<lparr>path = ''/dist'', publicPath = ''auto''\<rparr>)
     = Some \<lparr>asset = None, assetName = ''./css/a.css''\<rparr> \<and>
   processTag ''/home/u/proj''
     \<lparr>outputOptions = \<lparr>path = ''/dist'', publicPath = ''auto''\<rparr>,
      assets = [(''./css/a.css'', \<lparr>source = ''a{}''\<rparr>)]\<rparr>
     (\<lambda>s. True) (linkTag ''css/a.css'') ''index.html'' = Inl TypeError"
  by code_simp

text \<open>
  When the lookup of the candidate name yields the artifact itself (the return of line
  113), \<^verbatim>\<open>processTag\<close> returns the replacement descriptor: for a link tag whose
  \<^verbatim>\<open>href\<close> matches, element name \<^verbatim>\<open>style\<close>, the closing-tag flag, the single
  attribute \<^verbatim>\<open>type\<close> with value \<^verbatim>\<open>text/css\<close>, the artifact's content after
  source-map rewriting as body, and the plugin's marker; a script tag whose \<^verbatim>\<open>src\<close>
  matches keeps the name \<^verbatim>\<open>script\<close>, gets the single attribute \<^verbatim>\<open>type\<close> with value
  \<^verbatim>\<open>text/javascript\<close>, and its body is the rewritten content with \<^verbatim>\<open></script>\<close>
  escaped.
\<close>

lemma processTag_replacement:
  assumes found: "getAssetByName cwd (assets c) (candidateAssetName cwd (outputOptions c) fname url)
                    (publicPathOf (outputOptions c)) = Some info"
    and own: "asset info = Some (Own a)"
    and match: "regex url"
  shows "\<exists>body. resolveSourceMaps cwd c info = Inr body \<and>
           (tagName t = ''link'' \<and> attr t ''href'' = JString url \<longrightarrow>
              processTag cwd c regex t fname =
                Inr \<lparr>tagName = ''style'', voidTag = None, closeTag = Some True,
                     attributes = [(''type'', JString ''text/css'')],
                     innerHTML = Some body,
                     meta = [(''plugin'', JString ''html-webpack-inline-source-plugin'')]\<rparr>) \<and>
           (tagName t = ''script'' \<and> attr t ''src'' = JString url \<longrightarrow>
              processTag cwd c regex t fname =
                Inr \<lparr>tagName = ''script'', voidTag = None, closeTag = Some True,
                     attributes = [(''type'', JString ''text/javascript'')],
                     innerHTML = Some (escapeScript body),
                     meta = [(''plugin'', JString ''html-webpack-inline-source-plugin'')]\<rparr>)"
proof -
  from own obtain body where body: "resolveSourceMaps cwd c info = Inr body"
    using resolveSourceMaps_Own by blast
  have "tagName t = ''link'' \<and> attr t ''href'' = JString url \<longrightarrow>
          processTag cwd c regex t fname = Inr (inlinedTag t body)"
    using found body match by (simp add: processTag_def inlineAsset_string)
  moreover have "tagName t = ''script'' \<and> attr t ''src'' = JString url \<longrightarrow>
          processTag cwd c regex t fname = Inr (inlinedTag t body)"
    using found body match by (simp add: processTag_def inlineAsset_string)
  ultimately show ?thesis using body
    by (auto simp: inlinedTag_def)
qed

lemma processTag_replacement_example:
  "getAssetByName ''/home/u'' (assets ex_compilation)
      (candidateAssetName ''/home/u'' (outputOptions ex_compilation) ''index.html'' ''/static/main.css'')
      (publicPathOf (outputOptions ex_compilation))
     = Some \<lparr>asset = Some (Own \<lparr>source = ex_css\<rparr>), assetName = ''main.css''\<rparr> \<and>
   ex_regex ''/static/main.css'' \<and>
   tagName ex_link = ''link'' \<and> attr ex_link ''href'' = JString ''/static/main.css'' \<and>
   resolveSourceMaps ''/home/u'' ex_compilation
      \<lparr>asset = Some (Own \<lparr>source = ex_css\<rparr>), assetName = ''main.css''\<rparr>
     = Inr (''a{}'' @ [CHR 0x0A] @ ''/*# sourceMappingURL=/static/main.css.map */'') \<and>
   processTag ''/home/u'' ex_compilation ex_regex ex_link ''index.html'' =
     Inr \<lparr>tagName = ''style'', voidTag = None, closeTag = Some True,
          attributes = [(''type'', JString ''text/css'')],
          innerHTML = Some (''a{}'' @ [CHR 0x0A] @ ''/*# sourceMappingURL=/static/main.css.map */''),
          meta = [(''plugin'', JString ''html-webpack-inline-source-plugin'')]\<rparr> \<and>
   getAssetByName ''/home/u'' (assets ex_compilation)
      (candidateAssetName ''/home/u'' (outputOptions ex_compilation) ''index.html'' ''/static/bundle.js'')
      (publicPathOf (outputOptions ex_compilation))
     = Some \<lparr>asset = Some (Own \<lparr>source = ex_js\<rparr>), assetName = ''bundle.js''\<rparr> \<and>
   ex_regex ''/static/bundle.js'' \<and>
   tagName ex_script = ''script'' \<and> attr ex_script ''src'' = JString ''/static/bundle.js'' \<and>
   processTag ''/home/u'' ex_compilation ex_regex ex_script ''index.html'' =
     Inr \<lparr>tagName = ''script'', voidTag = None, closeTag = Some True,
          attributes = [(''type'', JString ''text/javascript'')],
          innerHTML = Some (''var a;'' @ [CHR 0x0A] @ ''//# sourceMappingURL=/static/foo.js.map''),
          meta = [(''plugin'', JString ''html-webpack-inline-source-plugin'')]\<rparr>"
proof -
  let ?info = "\<lparr>asset = Some (Own \<lparr>source = ex_css\<rparr>), assetName = ''main.css''\<rparr>"
  have found: "getAssetByName ''/home/u'' (assets ex_compilation)
      (candidateAssetName ''/home/u'' (outputOptions ex_compilation) ''index.html'' ''/static/main.css'')
      (publicPathOf (outputOptions ex_compilation)) = Some ?info"
    by code_simp
  have own: "asset ?info = Some (Own \<lparr>source = ex_css\<rparr>)" by simp
  have match: "ex_regex ''/static/main.css''" by code_simp
  have t: "tagName ex_link = ''link''" "attr ex_link ''href'' = JString ''/static/main.css''"
    by (simp_all add: ex_link_def attr_def)
  have r: "resolveSourceMaps ''/home/u'' ex_compilation ?info
             = Inr (''a{}'' @ [CHR 0x0A] @ ''/*# sourceMappingURL=/static/main.css.map */'')"
    by code_simp
  from processTag_replacement [where regex = ex_regex and t = ex_link and url = "''/static/main.css''",
         OF found own match] t r
  have link: "processTag ''/home/u'' ex_compilation ex_regex ex_link ''index.html'' =
     Inr \<lparr>tagName = ''style'', voidTag = None, closeTag = Some True,
          attributes = [(''type'', JString ''text/css'')],
          innerHTML = Some (''a{}'' @ [CHR 0x0A] @ ''/*# sourceMappingURL=/static/main.css.map */''),
          meta = [(''plugin'', JString ''html-webpack-inline-source-plugin'')]\<rparr>"
    by simp
  let ?info' = "\<lparr>asset = Some (Own \<lparr>source = ex_js\<rparr>), assetName = ''bundle.js''\<rparr>"
  have found': "getAssetByName ''/home/u'' (assets ex_compilation)
      (candidateAssetName ''/home/u'' (outputOptions ex_compilation) ''index.html'' ''/static/bundle.js'')
      (publicPathOf (outputOptions ex_compilation)) = Some ?info'"
    by code_simp
  have own': "asset ?info' = Some (Own \<lparr>source = ex_js\<rparr>)" by simp
  have match': "ex_regex ''/static/bundle.js''" by code_simp
  have t': "tagName ex_script = ''script''" "attr ex_script ''src'' = JString ''/static/bundle.js''"
    by (simp_all add: ex_script_def scriptTag_def attr_def)
  have r': "resolveSourceMaps ''/home/u'' ex_compilation ?info'
             = Inr (''var a;'' @ [CHR 0x0A] @ ''//# sourceMappingURL=/static/foo.js.map'')"
    by code_simp
  have e: "escapeScript (''var a;'' @ [CHR 0x0A] @ ''//# sourceMappingURL=/static/foo.js.map'')
             = ''var a;'' @ [CHR 0x0A] @ ''//# sourceMappingURL=/static/foo.js.map''"
    by code_simp
  from processTag_replacement [where regex = ex_regex and t = ex_script
         and url = "''/static/bundle.js''", OF found' own' match'] t' r' e
  have script: "processTag ''/home/u'' ex_compilation ex_regex ex_script ''index.html'' =
     Inr \<lparr>tagName = ''script'', voidTag = None, closeTag = Some True,
          attributes = [(''type'', JString ''text/javascript'')],
          innerHTML = Some (''var a;'' @ [CHR 0x0A] @ ''//# sourceMappingURL=/static/foo.js.map''),
          meta = [(''plugin'', JString ''html-webpack-inline-source-plugin'')]\<rparr>"
    by simp
  from found match t r link found' match' t' script show ?thesis by simp
qed

text \<open>
  C10. For a script tag without a \<^verbatim>\<open>src\<close> attribute the pattern is tested against
  the text \<^verbatim>\<open>undefined\<close>: \<^verbatim>\<open>processTag\<close> returns the tag as it is exactly when the
  pattern does not match that text.
\<close>

theorem processTag_srcless_script:
  assumes "tagName t = ''script''" and "map_of (attributes t) ''src'' = None"
  shows "(processTag cwd c regex t fname = Inr t) = (\<not> regex ''undefined'')"
  using assms by (simp add: processTag_def attr_def inlineAsset_undefined)

theorem processTag_srcless_script_witness:
  "tagName ex_srcless = ''script'' \<and> map_of (attributes ex_srcless) ''src'' = None \<and>
   \<not> ex_regex ''undefined'' \<and>
   processTag ''/home/u'' ex_compilation ex_regex ex_srcless ''index.html'' = Inr ex_srcless \<and>
   processTag ''/home/u'' ex_compilation (\<lambda>s. True) ex_srcless ''index.html'' \<noteq> Inr ex_srcless"
proof -
  have h: "tagName ex_srcless = ''script''" "map_of (attributes ex_srcless) ''src'' = None"
    by (simp_all add: ex_srcless_def)
  have n: "\<not> ex_regex ''undefined''" by code_simp
  from processTag_srcless_script [OF h, of "''/home/u''" ex_compilation ex_regex "''index.html''"]
       processTag_srcless_script [OF h, of "''/home/u''" ex_compilation "\<lambda>s. True" "''index.html''"]
       h n
  show ?thesis by simp
qed

lemma processTag_other_element:
  "tagName t \<noteq> ''script'' \<Longrightarrow> tagName t \<noteq> ''link'' \<Longrightarrow> processTag cwd c regex t fname = Inr t"
  by (simp add: processTag_def)

lemma processTag_no_match:
  "\<not> regex (toString (attr t ''src'')) \<Longrightarrow> \<not> regex (toString (attr t ''href''))
     \<Longrightarrow> processTag cwd c regex t fname = Inr t"
  by (simp add: processTag_def)

lemma mapE_processTag:
  assumes "mapE (\<lambda>t. processTag cwd c regex t fname) xs = Inr ys"
  shows "length ys = length xs \<and>
         (\<forall>i<length xs. processTag cwd c regex (xs ! i) fname = Inr (ys ! i) \<and>
                          (ys ! i = xs ! i \<or> (\<exists>u. ys ! i = inlinedTag (xs ! i) u)))"
  using mapE_Inr [OF assms] processTag_cases by metis

text \<open>
  C6. When \<^verbatim>\<open>processTags\<close> returns, each of the three output sequences has the length
  of the corresponding input sequence, and the tag at every position is what
  \<^verbatim>\<open>processTag\<close> returns for the input tag at that position: that tag itself, or its
  replacement descriptor. It returns whenever the pattern compiles and \<^verbatim>\<open>processTag\<close>
  returns for every tag.
\<close>

theorem processTags_shape:
  "(processTags cwd c newRegExp regexStr pd = Inr r \<longrightarrow>
      (\<exists>regex. newRegExp regexStr = Inr regex \<and>
         length (metaTags (assetTags r)) = length (metaTags (assetTags pd)) \<and>
         length (scripts (assetTags r)) = length (scripts (assetTags pd)) \<and>
         length (styles (assetTags r)) = length (styles (assetTags pd)) \<and>
         (\<forall>i<length (metaTags (assetTags pd)).
            processTag cwd c regex (metaTags (assetTags pd) ! i) (filename pd)
              = Inr (metaTags (assetTags r) ! i) \<and>
            (metaTags (assetTags r) ! i = metaTags (assetTags pd) ! i \<or>
             (\<exists>u. metaTags (assetTags r) ! i = inlinedTag (metaTags (assetTags pd) ! i) u))) \<and>
         (\<forall>i<length (scripts (assetTags pd)).
            processTag cwd c regex (scripts (assetTags pd) ! i) (filename pd)
              = Inr (scripts (assetTags r) ! i) \<and>
            (scripts (assetTags r) ! i = scripts (assetTags pd) ! i \<or>
             (\<exists>u. scripts (assetTags r) ! i = inlinedTag (scripts (assetTags pd) ! i) u))) \<and>
         (\<forall>i<length (styles (assetTags pd)).
            processTag cwd c regex (styles (assetTags pd) ! i) (filename pd)
              = Inr (styles (assetTags r) ! i) \<and>
            (styles (assetTags r) ! i = styles (assetTags pd) ! i \<or>
             (\<exists>u. styles (assetTags r) ! i = inlinedTag (styles (assetTags pd) ! i) u))))) \<and>
   (newRegExp regexStr = Inr regex' \<and>
    (\<forall>t \<in> set (metaTags (assetTags pd)) \<union> set (scripts (assetTags pd))
            \<union> set (styles (assetTags pd)).
        \<exists>t'. processTag cwd c regex' t (filename pd) = Inr t')
    \<longrightarrow> (\<exists>r'. processTags cwd c newRegExp regexStr pd = Inr r'))"
proof (intro conjI impI)
  assume ret: "processTags cwd c newRegExp regexStr pd = Inr r"
  let ?f = "\<lambda>regex t. processTag cwd c regex t (filename pd)"
  from ret obtain regex m sc st where
    re: "newRegExp regexStr = Inr regex"
    and m: "mapE (?f regex) (metaTags (assetTags pd)) = Inr m"
    and sc: "mapE (?f regex) (scripts (assetTags pd)) = Inr sc"
    and st: "mapE (?f regex) (styles (assetTags pd)) = Inr st"
    and r: "r = pd\<lparr>assetTags := \<lparr>metaTags = m, scripts = sc, styles = st\<rparr>\<rparr>"
    by (auto simp: processTags_def Let_def split: sum.splits)
  from r have sel: "metaTags (assetTags r) = m" "scripts (assetTags r) = sc"
    "styles (assetTags r) = st"
    by simp_all
  from mapE_processTag [OF m] mapE_processTag [OF sc] mapE_processTag [OF st] re
  show "\<exists>regex. newRegExp regexStr = Inr regex \<and>
         length (metaTags (assetTags r)) = length (metaTags (assetTags pd)) \<and>
         length (scripts (assetTags r)) = length (scripts (assetTags pd)) \<and>
         length (styles (assetTags r)) = length (styles (assetTags pd)) \<and>
         (\<forall>i<length (metaTags (assetTags pd)).
            processTag cwd c regex (metaTags (assetTags pd) ! i) (filename pd)
              = Inr (metaTags (assetTags r) ! i) \<and>
            (metaTags (assetTags r) ! i = metaTags (assetTags pd) ! i \<or>
             (\<exists>u. metaTags (assetTags r) ! i = inlinedTag (metaTags (assetTags pd) ! i) u))) \<and>
         (\<forall>i<length (scripts (assetTags pd)).
            processTag cwd c regex (scripts (assetTags pd) ! i) (filename pd)
              = Inr (scripts (assetTags r) ! i) \<and>
            (scripts (assetTags r) ! i = scripts (assetTags pd) ! i \<or>
             (\<exists>u. scripts (assetTags r) ! i = inlinedTag (scripts (assetTags pd) ! i) u))) \<and>
         (\<forall>i<length (styles (assetTags pd)).
            processTag cwd c regex (styles (assetTags pd) ! i) (filename pd)
              = Inr (styles (assetTags r) ! i) \<and>
            (styles (assetTags r) ! i = styles (assetTags pd) ! i \<or>
             (\<exists>u. styles (assetTags r) ! i = inlinedTag (styles (assetTags pd) ! i) u)))"
    unfolding sel by (intro exI [of _ regex]) simp
next
  assume h: "newRegExp regexStr = Inr regex' \<and>
    (\<forall>t \<in> set (metaTags (assetTags pd)) \<union> set (scripts (assetTags pd))
            \<union> set (styles (assetTags pd)).
        \<exists>t'. processTag cwd c regex' t (filename pd) = Inr t')"
  let ?f = "\<lambda>t. processTag cwd c regex' t (filename pd)"
  from h obtain m where m: "mapE ?f (metaTags (assetTags pd)) = Inr m"
    using mapE_total [of "metaTags (assetTags pd)" ?f] by auto
  from h obtain sc where sc: "mapE ?f (scripts (assetTags pd)) = Inr sc"
    using mapE_total [of "scripts (assetTags pd)" ?f] by auto
  from h obtain st where st: "mapE ?f (styles (assetTags pd)) = Inr st"
    using mapE_total [of "styles (assetTags pd)" ?f] by auto
  from h m sc st show "\<exists>r'. processTags cwd c newRegExp regexStr pd = Inr r'"
    by (simp add: processTags_def Let_def)
qed

theorem processTags_shape_witness:
  "processTags ''/home/u'' ex_compilation (\<lambda>s. Inr ex_regex) ''^/static/'' ex_pluginData
     = Inr ex_result \<and>
   length (metaTags (assetTags ex_result)) = length (metaTags (assetTags ex_pluginData)) \<and>
   length (scripts (assetTags ex_result)) = length (scripts (assetTags ex_pluginData)) \<and>
   length (styles (assetTags ex_result)) = length (styles (assetTags ex_pluginData)) \<and>
   metaTags (assetTags ex_result) ! 0 = metaTags (assetTags ex_pluginData) ! 0 \<and>
   processTag ''/home/u'' ex_compilation ex_regex (metaTags (assetTags ex_pluginData) ! 0)
       (filename ex_pluginData) = Inr (metaTags (assetTags ex_result) ! 0) \<and>
   processTag ''/home/u'' ex_compilation ex_regex (scripts (assetTags ex_pluginData) ! 0)
       (filename ex_pluginData) = Inr (scripts (assetTags ex_result) ! 0) \<and>
   processTag ''/home/u'' ex_compilation ex_regex (styles (assetTags ex_pluginData) ! 0)
       (filename ex_pluginData) = Inr (styles (assetTags ex_result) ! 0)"
proof -
  have ret: "processTags ''/home/u'' ex_compilation (\<lambda>s. Inr ex_regex) ''^/static/'' ex_pluginData
               = Inr ex_result"
    by code_simp
  have len: "length (metaTags (assetTags ex_pluginData)) = 1"
    "length (scripts (assetTags ex_pluginData)) = 1"
    "length (styles (assetTags ex_pluginData)) = 1"
    by (simp_all add: ex_pluginData_def)
  have m: "metaTags (assetTags ex_result) ! 0 = metaTags (assetTags ex_pluginData) ! 0"
    by (simp add: ex_result_def ex_pluginData_def)
  from processTags_shape [of "''/home/u''" ex_compilation "\<lambda>s. Inr ex_regex" "''^/static/''"
         ex_pluginData ex_result] ret len m
  show ?thesis by auto
qed

end
